theory Spec2Isabelle
  imports Complex_Main
begin

section \<open>Bounded deques\<close>

text \<open>
  \<^verbatim>\<open>collections.deque(maxlen=n)\<close>: an ordered buffer, oldest entry first, together with
  its bound. \<^verbatim>\<open>append\<close> puts the new entry at the right end and, when the length then
  exceeds \<^verbatim>\<open>maxlen\<close>, removes the leftmost entry (so a deque with \<^verbatim>\<open>maxlen=0\<close> stays
  empty).
\<close>

record 'a deque =
  items :: "'a list"
  maxlen :: nat

definition deque_new :: "nat \<Rightarrow> 'a deque" where
  "deque_new n = \<lparr>items = [], maxlen = n\<rparr>"

definition deque_append :: "'a deque \<Rightarrow> 'a \<Rightarrow> 'a deque" where
  "deque_append d x =
     (let ys = items d @ [x]
      in d\<lparr>items := (if maxlen d < length ys then tl ys else ys)\<rparr>)"

definition deque_len :: "'a deque \<Rightarrow> nat" where
  "deque_len d = length (items d)"

section \<open>The monitor object\<close>

text \<open>
  The fields of \<^verbatim>\<open>NetworkMonitor\<close> (network_monitor_v1.5.py, \<^verbatim>\<open>__init__\<close>). Python ints
  are \<open>int\<close>; a Python float is the real number it stands for. The three Qt signals of the class are
  output only; what has been emitted so far is kept in \<open>emitted\<close>, oldest first (the
  conversion of the emitted integers to Qt's \<^verbatim>\<open>int\<close> is not modelled).

  Every message passed to \<^verbatim>\<open>update_signal.emit\<close> is one constructor of \<open>message\<close>, its
  arguments being the values interpolated into the f-string (the target address, also
  interpolated in some of them, is the field \<open>target_ip\<close>):
  \<^item> \<open>NetworkActivity t\<close>: \<^verbatim>\<open>f"Network activity: {total_bytes} bytes/sec"\<close>
  \<^item> \<open>AnomalyDetected\<close>: \<^verbatim>\<open>"Anomaly detected in network activity!"\<close>
  \<^item> \<open>ConnectionStability s\<close>: \<^verbatim>\<open>f"Connection stability: {stability}"\<close>
  \<^item> \<open>DnsOk\<close>, \<open>DnsFailed\<close>: \<^verbatim>\<open>"DNS resolution: OK"\<close>, \<^verbatim>\<open>"DNS resolution: FAILED"\<close>
  \<^item> \<open>LatencyMs l\<close>: \<^verbatim>\<open>f"Latency to {self.target_ip}: {latency} ms"\<close>
  \<^item> \<open>PingFailed\<close>, \<open>PingTimedOut\<close>: \<^verbatim>\<open>f"Ping to {self.target_ip} failed"\<close>, \<^verbatim>\<open>... timed out\<close>
  \<^item> \<open>LatencyError m\<close>: \<^verbatim>\<open>f"Error checking latency: {str(e)}"\<close>
  \<^item> \<open>PacketLoss p\<close>: \<^verbatim>\<open>f"Packet loss to {self.target_ip}: {loss:.2f}%"\<close>
  \<^item> \<open>PacketLossFailed\<close>, \<open>PacketLossTimedOut\<close>:
    \<^verbatim>\<open>f"Packet loss test to {self.target_ip} failed"\<close>, \<^verbatim>\<open>... timed out\<close>
  \<^item> \<open>PacketLossError m\<close>: \<^verbatim>\<open>f"Error checking packet loss: {str(e)}"\<close>
  \<^item> \<open>HttpResponse c\<close>: \<^verbatim>\<open>f"HTTP response from {url}: {response.status_code}"\<close>
  \<^item> \<open>HttpError m\<close>: \<^verbatim>\<open>f"Error checking HTTP response: {str(e)}"\<close>
  \<^item> \<open>DownloadSpeed d\<close>, \<open>UploadSpeed u\<close>: \<^verbatim>\<open>f"Download speed: {download_speed:.2f} Mbps"\<close>,
    \<^verbatim>\<open>f"Upload speed: {upload_speed:.2f} Mbps"\<close>
  \<^item> \<open>SpeedError m\<close>: \<^verbatim>\<open>f"Error checking internet speed: {str(e)}"\<close>
\<close>

datatype message =
    NetworkActivity int
  | AnomalyDetected
  | ConnectionStability string
  | DnsOk
  | DnsFailed
  | LatencyMs real
  | PingFailed
  | PingTimedOut
  | LatencyError string
  | PacketLoss real
  | PacketLossFailed
  | PacketLossTimedOut
  | PacketLossError string
  | HttpResponse int
  | HttpError string
  | DownloadSpeed real
  | UploadSpeed real
  | SpeedError string

datatype signal =
    Update message
  | SpeedUpdate int int
  | GraphUpdate int int

record monitor =
  target_ip :: string
  anomaly_threshold :: real
  check_interval :: real
  previous_bytes_sent :: int
  previous_bytes_recv :: int
  speed_history :: "int deque"
  connection_history :: "real deque"
  running :: bool
  emitted :: "signal list"

definition emit :: "signal \<Rightarrow> monitor \<Rightarrow> monitor" where
  "emit s st = st\<lparr>emitted := emitted st @ [s]\<rparr>"

section \<open>Exceptions and library calls\<close>

text \<open>
  An exception is its class and the text \<^verbatim>\<open>str(e)\<close> gives. Only the classes the handlers of
  the program tell apart are kept; \<open>OtherException\<close> is any other subclass of
  \<^verbatim>\<open>Exception\<close>. All of them are caught by \<^verbatim>\<open>except Exception\<close>.
\<close>

datatype exn_class =
    Gaierror
  | TimeoutExpired
  | RequestException
  | IndexError
  | ValueError
  | ZeroDivisionError
  | OtherException

type_synonym exn = "exn_class \<times> string"

text \<open>
  What Python itself computes is a parameter of the model. The builtins \<^verbatim>\<open>float\<close> and
  \<^verbatim>\<open>int\<close> applied to a string return the number read or the exception raised. A float is
  the real number it stands for (infinities and NaN, which the counters and round-trip
  times of the program do not produce, are left out), and the float operations, each of
  which rounds its result, are the fields
  \<^item> \<open>int_truediv a b\<close>: \<^verbatim>\<open>a / b\<close> on two ints,
  \<^item> \<open>to_float n\<close>: the float an int operand is converted to where the other operand is a
    float,
  \<^item> \<open>float_sub\<close>, \<open>float_mul\<close>, \<open>float_truediv\<close>, \<open>float_pow\<close>: \<^verbatim>\<open>-\<close>, \<^verbatim>\<open>*\<close>, \<^verbatim>\<open>/\<close> and \<^verbatim>\<open>**\<close> on
    two floats,
  \<^item> \<open>float_sum\<close>: the builtin \<^verbatim>\<open>sum\<close> over floats.
  Nothing is assumed of them: what is proved holds for every rounding. Comparisons and
  \<^verbatim>\<open>abs\<close> do not round and are those of the reals. A float power with a negative base
  and exponent 0.5 is a complex number in Python; the program takes this power only of a
  sum of squares divided by a length.
\<close>

record builtins =
  float_of :: "string \<Rightarrow> exn + real"
  int_of :: "string \<Rightarrow> exn + int"
  int_truediv :: "int \<Rightarrow> int \<Rightarrow> real"
  to_float :: "int \<Rightarrow> real"
  float_sub :: "real \<Rightarrow> real \<Rightarrow> real"
  float_mul :: "real \<Rightarrow> real \<Rightarrow> real"
  float_truediv :: "real \<Rightarrow> real \<Rightarrow> real"
  float_pow :: "real \<Rightarrow> real \<Rightarrow> real"
  float_sum :: "real list \<Rightarrow> real"

text \<open>\<^verbatim>\<open>s.split(c)\<close> for a one-character separator: every occurrence separates, empty
  pieces are kept, and the empty string gives one empty piece.\<close>

fun split_on :: "char \<Rightarrow> string \<Rightarrow> string list" where
  "split_on c [] = [[]]"
| "split_on c (x # xs) =
     (if x = c then [] # split_on c xs
      else (case split_on c xs of [] \<Rightarrow> [[x]] | p # ps \<Rightarrow> (x # p) # ps))"

text \<open>\<^verbatim>\<open>parts[-3]\<close>: raises \<^verbatim>\<open>IndexError\<close> on fewer than three elements.\<close>

definition index_neg3 :: "'a list \<Rightarrow> exn + 'a" where
  "index_neg3 parts =
     (if length parts < 3 then Inl (IndexError, ''list index out of range'')
      else Inr (parts ! (length parts - 3)))"

text \<open>
  The characters \<^verbatim>\<open>str.splitlines\<close> breaks at and those \<^verbatim>\<open>str.split()\<close> treats as white
  space, among the code points below 256 (a \<open>char\<close> stands for one such code point).
\<close>

definition is_linebreak :: "char \<Rightarrow> bool" where
  "is_linebreak c \<longleftrightarrow>
     c \<in> {CHR 0x0A, CHR 0x0B, CHR 0x0C, CHR 0x0D, CHR 0x1C, CHR 0x1D, CHR 0x1E, CHR 0x85}"

definition is_space :: "char \<Rightarrow> bool" where
  "is_space c \<longleftrightarrow>
     c \<in> {CHR 0x09, CHR 0x0A, CHR 0x0B, CHR 0x0C, CHR 0x0D, CHR 0x1C, CHR 0x1D, CHR 0x1E,
          CHR 0x1F, CHR 0x20, CHR 0x85, CHR 0xA0}"

text \<open>\<^verbatim>\<open>s.splitlines()\<close>: the first argument is the line read so far, reversed. A carriage
  return followed by a line feed is one break; no empty line follows a final break.\<close>

fun splitlines_from :: "string \<Rightarrow> string \<Rightarrow> string list" where
  "splitlines_from cur [] = (if cur = [] then [] else [rev cur])"
| "splitlines_from cur (c # cs) =
     (if c = CHR 0x0D \<and> take 1 cs = [CHR 0x0A] then rev cur # splitlines_from [] (drop 1 cs)
      else if is_linebreak c then rev cur # splitlines_from [] cs
      else splitlines_from (c # cur) cs)"

definition splitlines :: "string \<Rightarrow> string list" where
  "splitlines s = splitlines_from [] s"

text \<open>\<^verbatim>\<open>s.split()\<close>: the maximal runs of characters that are not white space.\<close>

fun split_ws_from :: "string \<Rightarrow> string \<Rightarrow> string list" where
  "split_ws_from cur [] = (if cur = [] then [] else [rev cur])"
| "split_ws_from cur (c # cs) =
     (if is_space c then (if cur = [] then split_ws_from [] cs else rev cur # split_ws_from [] cs)
      else split_ws_from (c # cur) cs)"

definition split_ws :: "string \<Rightarrow> string list" where
  "split_ws s = split_ws_from [] s"

text \<open>\<^verbatim>\<open>xs[0:3:2]\<close>: the elements at positions 0 and 2, as far as they exist.\<close>

fun slice_0_3_2 :: "'a list \<Rightarrow> 'a list" where
  "slice_0_3_2 (a # b # c # xs) = [a, c]"
| "slice_0_3_2 (a # xs) = [a]"
| "slice_0_3_2 [] = []"

text \<open>\<^verbatim>\<open>sub in s\<close> on strings.\<close>

fun contains :: "string \<Rightarrow> string \<Rightarrow> bool" where
  "contains sub [] = (sub = [])"
| "contains sub (c # cs) = (take (length sub) (c # cs) = sub \<or> contains sub cs)"

text \<open>What \<^verbatim>\<open>subprocess.run(..., capture_output=True, text=True, timeout=t)\<close> returns.\<close>

record completed =
  returncode :: int
  stdout :: string

section \<open>The anomaly detector\<close>

text \<open>
  \<^verbatim>\<open>
  def detect_anomalies(self, current_speed):
      self.speed_history.append(current_speed)
      if len(self.speed_history) < 10:
          return False
      mean = sum(self.speed_history) / len(self.speed_history)
      std_dev = (sum((x - mean) ** 2 for x in self.speed_history) / len(self.speed_history)) ** 0.5
      return abs(current_speed - mean) > (self.anomaly_threshold * std_dev)
  \<close>
  The result is the returned flag and the monitor after the call. The window holds ints, so
  the first \<^verbatim>\<open>sum\<close> is exact and its quotient by the length is \<open>int_truediv\<close>; in
  \<^verbatim>\<open>x - mean\<close>, in the division by the length and in \<^verbatim>\<open>current_speed - mean\<close> the int
  operand is converted by \<open>to_float\<close>; the second \<^verbatim>\<open>sum\<close> runs over floats. \<^verbatim>\<open>abs\<close> and \<^verbatim>\<open>>\<close>
  are exact on floats. The threshold is a float (the main window of the program passes the
  value of a \<^verbatim>\<open>QDoubleSpinBox\<close>; the default 2 is converted without rounding).
\<close>

definition detect_anomalies :: "builtins \<Rightarrow> monitor \<Rightarrow> int \<Rightarrow> bool \<times> monitor" where
  "detect_anomalies B st current_speed =
     (let st' = st\<lparr>speed_history := deque_append (speed_history st) current_speed\<rparr>;
          h = items (speed_history st')
      in if length h < 10 then (False, st')
         else
           let mean = int_truediv B (sum_list h) (int (length h));
               std_dev =
                 float_pow B
                   (float_truediv B
                      (float_sum B (map (\<lambda>x. float_pow B (float_sub B (to_float B x) mean) 2) h))
                      (to_float B (int (length h))))
                   (1 / 2)
           in (\<bar>float_sub B (to_float B current_speed) mean\<bar>
                 > float_mul B (anomaly_threshold st') std_dev, st'))"

text \<open>Feeding a sequence of totals, one call each; the flags returned, in order.\<close>

fun observe_all :: "builtins \<Rightarrow> monitor \<Rightarrow> int list \<Rightarrow> bool list \<times> monitor" where
  "observe_all B st [] = ([], st)"
| "observe_all B st (x # xs) =
     (let (b, st') = detect_anomalies B st x;
          (bs, st'') = observe_all B st' xs
      in (b # bs, st''))"

text \<open>
  Population mean and population standard deviation of a window of totals, as the
  specification words them, computed in the arithmetic of the program: the mean is the
  sum over the length, the deviation the square root of the mean squared distance from the
  mean.
\<close>

definition population_mean :: "builtins \<Rightarrow> int list \<Rightarrow> real" where
  "population_mean B w = int_truediv B (sum_list w) (int (length w))"

definition squared_distances :: "builtins \<Rightarrow> int list \<Rightarrow> real list" where
  "squared_distances B w =
     map (\<lambda>x. float_pow B (float_sub B (to_float B x) (population_mean B w)) 2) w"

definition population_stddev :: "builtins \<Rightarrow> int list \<Rightarrow> real" where
  "population_stddev B w =
     float_pow B
       (float_truediv B (float_sum B (squared_distances B w)) (to_float B (int (length w))))
       (1 / 2)"

text \<open>
  Arithmetic in which no operation rounds: every float operation gives the real result
  (of the power, the square and the square root, which the program uses).
\<close>

definition exact_arithmetic :: "builtins \<Rightarrow> bool" where
  "exact_arithmetic B \<longleftrightarrow>
     int_truediv B = (\<lambda>a b. real_of_int a / real_of_int b) \<and>
     to_float B = real_of_int \<and>
     float_sub B = (\<lambda>a b. a - b) \<and>
     float_mul B = (\<lambda>a b. a * b) \<and>
     float_truediv B = (\<lambda>a b. a / b) \<and>
     float_sum B = sum_list \<and>
     (\<forall>a. float_pow B a 2 = a * a) \<and>
     (\<forall>a. float_pow B a (1 / 2) = sqrt a)"

section \<open>The diagnostic probes\<close>

text \<open>
  Each probe takes the monitor and what its library call did (the value returned, or the
  exception raised) and gives the monitor after the call. A probe whose handlers do not
  cover every exception also says which exception left it (\<open>None\<close>: it returned).

  \<^verbatim>\<open>
  def check_dns_resolution(self):
      try:
          socket.gethostbyname('www.google.com')
          self.update_signal.emit("DNS resolution: OK")
      except socket.gaierror:
          self.update_signal.emit("DNS resolution: FAILED")
  \<close>
\<close>

definition check_dns_resolution :: "monitor \<Rightarrow> exn + unit \<Rightarrow> exn option \<times> monitor" where
  "check_dns_resolution st r =
     (case r of
        Inr _ \<Rightarrow> (None, emit (Update DnsOk) st)
      | Inl e \<Rightarrow>
          if fst e = Gaierror then (None, emit (Update DnsFailed) st) else (Some e, st))"

text \<open>
  \<^verbatim>\<open>
  def check_latency(self):
      try:
          result = subprocess.run(["ping", "-c", "4", self.target_ip],
                                  capture_output=True, text=True, timeout=10)
          if result.returncode == 0:
              latency = float(result.stdout.split('/')[-3])
              self.connection_history.append(latency)
              self.update_signal.emit(f"Latency to {self.target_ip}: {latency} ms")
          else:
              self.update_signal.emit(f"Ping to {self.target_ip} failed")
      except subprocess.TimeoutExpired:
          self.update_signal.emit(f"Ping to {self.target_ip} timed out")
      except Exception as e:
          self.update_signal.emit(f"Error checking latency: {str(e)}")
  \<close>
  \<open>check_latency_try\<close> is the body of the \<^verbatim>\<open>try\<close>; nothing is written to the monitor
  before the last statement that can raise.
\<close>

definition check_latency_try :: "builtins \<Rightarrow> monitor \<Rightarrow> exn + completed \<Rightarrow> exn + monitor" where
  "check_latency_try B st r =
     (case r of
        Inl e \<Rightarrow> Inl e
      | Inr result \<Rightarrow>
          if returncode result = 0 then
            (case index_neg3 (split_on CHR ''/'' (stdout result)) of
               Inl e \<Rightarrow> Inl e
             | Inr s \<Rightarrow>
                 (case float_of B s of
                    Inl e \<Rightarrow> Inl e
                  | Inr latency \<Rightarrow>
                      Inr (emit (Update (LatencyMs latency))
                            (st\<lparr>connection_history :=
                                   deque_append (connection_history st) latency\<rparr>))))
          else Inr (emit (Update PingFailed) st))"

definition check_latency :: "builtins \<Rightarrow> monitor \<Rightarrow> exn + completed \<Rightarrow> monitor" where
  "check_latency B st r =
     (case check_latency_try B st r of
        Inr st' \<Rightarrow> st'
      | Inl e \<Rightarrow>
          if fst e = TimeoutExpired then emit (Update PingTimedOut) st
          else emit (Update (LatencyError (snd e))) st)"

text \<open>
  \<^verbatim>\<open>
  def check_packet_loss(self):
      try:
          result = subprocess.run(["ping", "-c", "10", self.target_ip],
                                  capture_output=True, text=True, timeout=15)
          if result.returncode == 0:
              sent = received = 0
              for line in result.stdout.splitlines():
                  if "packets transmitted" in line:
                      sent, received = map(int, line.split()[0:3:2])
                      break
              loss = (sent - received) / sent * 100 if sent > 0 else 0
              self.update_signal.emit(f"Packet loss to {self.target_ip}: {loss:.2f}%")
          else:
              self.update_signal.emit(f"Packet loss test to {self.target_ip} failed")
      except subprocess.TimeoutExpired:
          self.update_signal.emit(f"Packet loss test to {self.target_ip} timed out")
      except Exception as e:
          self.update_signal.emit(f"Error checking packet loss: {str(e)}")
  \<close>
  \<open>py_truediv\<close> is Python's \<^verbatim>\<open>/\<close>, which raises on a zero divisor. \<open>parse_counts\<close> is the
  unpacking assignment: \<^verbatim>\<open>map\<close> is lazy, so the first \<^verbatim>\<open>int\<close> is applied before a missing
  second value is noticed. \<open>find_counts\<close> is the loop with its \<^verbatim>\<open>break\<close>, and
  \<open>packet_loss\<close> the conditional expression assigned to \<^verbatim>\<open>loss\<close>. The percentage is only
  reported, never compared: it is given as the real quotient and product, which the float
  the program formats approximates; the guard is decided on the ints.
\<close>

definition py_truediv :: "real \<Rightarrow> real \<Rightarrow> exn + real" where
  "py_truediv a b = (if b = 0 then Inl (ZeroDivisionError, ''division by zero'') else Inr (a / b))"

definition parse_counts :: "builtins \<Rightarrow> string \<Rightarrow> exn + int \<times> int" where
  "parse_counts B line =
     (case slice_0_3_2 (split_ws line) of
        [] \<Rightarrow> Inl (ValueError, ''not enough values to unpack (expected 2, got 0)'')
      | a # rest \<Rightarrow>
          (case int_of B a of
             Inl e \<Rightarrow> Inl e
           | Inr sent \<Rightarrow>
               (case rest of
                  [] \<Rightarrow> Inl (ValueError, ''not enough values to unpack (expected 2, got 1)'')
                | b # _ \<Rightarrow>
                    (case int_of B b of
                       Inl e \<Rightarrow> Inl e
                     | Inr received \<Rightarrow> Inr (sent, received)))))"

definition find_counts :: "builtins \<Rightarrow> string list \<Rightarrow> exn + int \<times> int" where
  "find_counts B lines =
     (case find (contains ''packets transmitted'') lines of
        None \<Rightarrow> Inr (0, 0)
      | Some line \<Rightarrow> parse_counts B line)"

definition packet_loss :: "int \<Rightarrow> int \<Rightarrow> exn + real" where
  "packet_loss sent received =
     (if sent > 0 then
        (case py_truediv (real_of_int (sent - received)) (real_of_int sent) of
           Inl e \<Rightarrow> Inl e
         | Inr q \<Rightarrow> Inr (q * 100))
      else Inr 0)"

definition check_packet_loss_try :: "builtins \<Rightarrow> monitor \<Rightarrow> exn + completed \<Rightarrow> exn + monitor" where
  "check_packet_loss_try B st r =
     (case r of
        Inl e \<Rightarrow> Inl e
      | Inr result \<Rightarrow>
          if returncode result = 0 then
            (case find_counts B (splitlines (stdout result)) of
               Inl e \<Rightarrow> Inl e
             | Inr (sent, received) \<Rightarrow>
                 (case packet_loss sent received of
                    Inl e \<Rightarrow> Inl e
                  | Inr loss \<Rightarrow> Inr (emit (Update (PacketLoss loss)) st)))
          else Inr (emit (Update PacketLossFailed) st))"

definition check_packet_loss :: "builtins \<Rightarrow> monitor \<Rightarrow> exn + completed \<Rightarrow> monitor" where
  "check_packet_loss B st r =
     (case check_packet_loss_try B st r of
        Inr st' \<Rightarrow> st'
      | Inl e \<Rightarrow>
          if fst e = TimeoutExpired then emit (Update PacketLossTimedOut) st
          else emit (Update (PacketLossError (snd e))) st)"

text \<open>
  \<^verbatim>\<open>
  def check_http_response(self, url="http://www.google.com"):
      try:
          response = requests.get(url, timeout=5)
          self.update_signal.emit(f"HTTP response from {url}: {response.status_code}")
      except requests.RequestException as e:
          self.update_signal.emit(f"Error checking HTTP response: {str(e)}")
  \<close>
\<close>

definition check_http_response :: "monitor \<Rightarrow> exn + int \<Rightarrow> exn option \<times> monitor" where
  "check_http_response st r =
     (case r of
        Inr status_code \<Rightarrow> (None, emit (Update (HttpResponse status_code)) st)
      | Inl e \<Rightarrow>
          if fst e = RequestException then (None, emit (Update (HttpError (snd e))) st)
          else (Some e, st))"

text \<open>
  \<^verbatim>\<open>
  def check_internet_speed(self):
      try:
          st = speedtest.Speedtest()
          download_speed = st.download() / 1_000_000  # Convert to Mbps
          upload_speed = st.upload() / 1_000_000  # Convert to Mbps
          self.update_signal.emit(f"Download speed: {download_speed:.2f} Mbps")
          self.update_signal.emit(f"Upload speed: {upload_speed:.2f} Mbps")
          return download_speed, upload_speed
      except Exception as e:
          self.update_signal.emit(f"Error checking internet speed: {str(e)}")
          return None, None
  \<close>
  The library's part is the pair \<^verbatim>\<open>(st.download(), st.upload())\<close>, or the first exception
  of the three calls; both signals come after the last of them. The speeds are only
  reported, and given as the real quotients.
\<close>

definition check_internet_speed ::
  "monitor \<Rightarrow> exn + real \<times> real \<Rightarrow> (real \<times> real) option \<times> monitor" where
  "check_internet_speed st r =
     (case r of
        Inr (down, up) \<Rightarrow>
          (let download_speed = down / 1000000; upload_speed = up / 1000000
           in (Some (download_speed, upload_speed),
               emit (Update (UploadSpeed upload_speed))
                 (emit (Update (DownloadSpeed download_speed)) st)))
      | Inl e \<Rightarrow> (None, emit (Update (SpeedError (snd e))) st))"

section \<open>The stability analyzer\<close>

text \<open>
  \<^verbatim>\<open>
  def analyze_connection_stability(self):
      if len(self.connection_history) < 5:
          return "Not enough data for stability analysis"
      variations = [abs(self.connection_history[i] - self.connection_history[i-1])
                    for i in range(1, len(self.connection_history))]
      avg_variation = sum(variations) / len(variations)
      if avg_variation < 5:
          return "Stable connection"
      elif avg_variation < 20:
          return "Moderate fluctuations"
      else:
          return "Unstable connection"
  \<close>
  As every method of the class, it gives its result and the monitor after the call. The
  window holds floats; the length the sum is divided by is converted by \<open>to_float\<close>.
\<close>

definition analyze_connection_stability :: "builtins \<Rightarrow> monitor \<Rightarrow> string \<times> monitor" where
  "analyze_connection_stability B st =
     (let h = items (connection_history st)
      in if length h < 5 then (''Not enough data for stability analysis'', st)
         else
           let variations = map (\<lambda>i. \<bar>float_sub B (h ! i) (h ! (i - 1))\<bar>) [1..<length h];
               avg_variation =
                 float_truediv B (float_sum B variations) (to_float B (int (length variations)))
           in if avg_variation < 5 then (''Stable connection'', st)
              else if avg_variation < 20 then (''Moderate fluctuations'', st)
              else (''Unstable connection'', st))"

text \<open>The absolute differences of consecutive entries, oldest pair first, as the
  specification words the first-order variation, each difference computed in the
  arithmetic of the program.\<close>

fun consecutive_diffs :: "builtins \<Rightarrow> real list \<Rightarrow> real list" where
  "consecutive_diffs B (a # b # xs) = \<bar>float_sub B b a\<bar> # consecutive_diffs B (b # xs)"
| "consecutive_diffs B xs = []"

section \<open>The troubleshooting step\<close>

text \<open>
  \<^verbatim>\<open>
  def troubleshoot(self):
      self.check_dns_resolution()
      self.check_latency()
      self.check_packet_loss()
      self.check_http_response()
      download_speed, upload_speed = self.check_internet_speed()
      stability = self.analyze_connection_stability()
      self.update_signal.emit(f"Connection stability: {stability}")
  \<close>
  \<open>probe_env\<close> holds what the five library calls of one step do.
\<close>

record probe_env =
  dns_call :: "exn + unit"
  latency_ping :: "exn + completed"
  loss_ping :: "exn + completed"
  http_call :: "exn + int"
  speedtest_call :: "exn + real \<times> real"

definition troubleshoot :: "builtins \<Rightarrow> monitor \<Rightarrow> probe_env \<Rightarrow> exn option \<times> monitor" where
  "troubleshoot B st env =
     (case check_dns_resolution st (dns_call env) of
        (Some e, st1) \<Rightarrow> (Some e, st1)
      | (None, st1) \<Rightarrow>
          (let st2 = check_latency B st1 (latency_ping env);
               st3 = check_packet_loss B st2 (loss_ping env)
           in case check_http_response st3 (http_call env) of
                (Some e, st4) \<Rightarrow> (Some e, st4)
              | (None, st4) \<Rightarrow>
                  (let (speeds, st5) = check_internet_speed st4 (speedtest_call env);
                       (stability, st6) = analyze_connection_stability B st5
                   in (None, emit (Update (ConnectionStability stability)) st6))))"

section \<open>The counter sampler\<close>

text \<open>
  What one call of \<^verbatim>\<open>psutil.net_io_counters()\<close> returns, as far as the program reads it.
\<close>

record counters =
  bytes_sent :: int
  bytes_recv :: int

text \<open>
  network_monitor_v1.5.py (and v1.3): the two reads are not inside a \<^verbatim>\<open>try\<close>.
  \<^verbatim>\<open>
  def get_network_speed(self):
      current_bytes_sent = psutil.net_io_counters().bytes_sent
      current_bytes_recv = psutil.net_io_counters().bytes_recv

      bytes_sent = current_bytes_sent - self.previous_bytes_sent
      bytes_recv = current_bytes_recv - self.previous_bytes_recv

      self.previous_bytes_sent = current_bytes_sent
      self.previous_bytes_recv = current_bytes_recv

      return bytes_sent, bytes_recv
  \<close>
  The arguments after the monitor are what the first and the second read do.
\<close>

definition get_network_speed ::
  "monitor \<Rightarrow> exn + counters \<Rightarrow> exn + counters \<Rightarrow> (exn + int \<times> int) \<times> monitor" where
  "get_network_speed st r1 r2 =
     (case r1 of
        Inl e \<Rightarrow> (Inl e, st)
      | Inr c1 \<Rightarrow>
          (case r2 of
             Inl e \<Rightarrow> (Inl e, st)
           | Inr c2 \<Rightarrow>
               (let current_bytes_sent = bytes_sent c1;
                    current_bytes_recv = bytes_recv c2;
                    sent = current_bytes_sent - previous_bytes_sent st;
                    recv = current_bytes_recv - previous_bytes_recv st
                in (Inr (sent, recv),
                    st\<lparr>previous_bytes_sent := current_bytes_sent,
                       previous_bytes_recv := current_bytes_recv\<rparr>))))"

text \<open>
  network_monitor_v1.0.py (v1.1 and v1.2 alike): the same body inside
  \<^verbatim>\<open>
      try:
          ...
          return bytes_sent, bytes_recv
      except Exception as e:
          logging.error(f"Error getting network speed: {str(e)}")
          return 0, 0
  \<close>
  The monitor of that version has no Qt signals; it writes to the log file, of which the
  records written so far are kept in \<open>log\<close>. \<open>LogError m\<close> is
  \<^verbatim>\<open>logging.error(f"Error getting network speed: {str(e)}")\<close>.
\<close>

datatype log_record = LogError string

record monitor_v1_0 =
  previous_bytes_sent_v1_0 :: int
  previous_bytes_recv_v1_0 :: int
  speed_history_v1_0 :: "int deque"
  anomaly_threshold_v1_0 :: real
  log :: "log_record list"

definition get_network_speed_v1_0 ::
  "monitor_v1_0 \<Rightarrow> exn + counters \<Rightarrow> exn + counters \<Rightarrow> (int \<times> int) \<times> monitor_v1_0" where
  "get_network_speed_v1_0 st r1 r2 =
     (case r1 of
        Inl e \<Rightarrow> ((0, 0), st\<lparr>log := log st @ [LogError (snd e)]\<rparr>)
      | Inr c1 \<Rightarrow>
          (case r2 of
             Inl e \<Rightarrow> ((0, 0), st\<lparr>log := log st @ [LogError (snd e)]\<rparr>)
           | Inr c2 \<Rightarrow>
               (let current_bytes_sent = bytes_sent c1;
                    current_bytes_recv = bytes_recv c2;
                    sent = current_bytes_sent - previous_bytes_sent_v1_0 st;
                    recv = current_bytes_recv - previous_bytes_recv_v1_0 st
                in ((sent, recv),
                    st\<lparr>previous_bytes_sent_v1_0 := current_bytes_sent,
                       previous_bytes_recv_v1_0 := current_bytes_recv\<rparr>))))"

section \<open>The monitor loop\<close>

text \<open>
  \<^verbatim>\<open>
  def __init__(self, target_ip, anomaly_threshold=2, check_interval=1, history_size=60):
      super().__init__()
      self.target_ip = target_ip
      self.anomaly_threshold = anomaly_threshold
      self.check_interval = check_interval
      self.previous_bytes_sent = psutil.net_io_counters().bytes_sent
      self.previous_bytes_recv = psutil.net_io_counters().bytes_recv
      self.speed_history = deque(maxlen=history_size)
      self.connection_history = deque(maxlen=10)
      self.running = True
  \<close>
  The last two arguments are the counters the two reads return.
\<close>

definition init ::
  "string \<Rightarrow> real \<Rightarrow> real \<Rightarrow> nat \<Rightarrow> counters \<Rightarrow> counters \<Rightarrow> monitor" where
  "init ip threshold interval history_size c1 c2 =
     \<lparr>target_ip = ip,
      anomaly_threshold = threshold,
      check_interval = interval,
      previous_bytes_sent = bytes_sent c1,
      previous_bytes_recv = bytes_recv c2,
      speed_history = deque_new history_size,
      connection_history = deque_new 10,
      running = True,
      emitted = []\<rparr>"

text \<open>
  \<^verbatim>\<open>
  def run(self):
      while self.running:
          bytes_sent, bytes_recv = self.get_network_speed()
          total_bytes = bytes_sent + bytes_recv
          self.speed_update_signal.emit(bytes_sent, bytes_recv)
          self.graph_update_signal.emit(bytes_sent, bytes_recv)
          self.update_signal.emit(f"Network activity: {total_bytes} bytes/sec")

          if self.detect_anomalies(total_bytes):
              self.update_signal.emit("Anomaly detected in network activity!")
              self.troubleshoot()

          time.sleep(self.check_interval)

  def stop(self):
      self.running = False
  \<close>
  \<open>tick_env\<close> is what the library calls of one iteration do; \<open>run_body\<close> is one
  iteration. \<^verbatim>\<open>time.sleep\<close> raises \<^verbatim>\<open>ValueError\<close> on a negative length.
\<close>

record tick_env =
  sent_read :: "exn + counters"
  recv_read :: "exn + counters"
  probes :: probe_env

definition py_sleep :: "real \<Rightarrow> exn option" where
  "py_sleep secs =
     (if secs < 0 then Some (ValueError, ''sleep length must be non-negative'') else None)"

definition run_body :: "builtins \<Rightarrow> monitor \<Rightarrow> tick_env \<Rightarrow> exn option \<times> monitor" where
  "run_body B st env =
     (case get_network_speed st (sent_read env) (recv_read env) of
        (Inl e, st1) \<Rightarrow> (Some e, st1)
      | (Inr (sent, recv), st1) \<Rightarrow>
          (let total_bytes = sent + recv;
               st2 = emit (Update (NetworkActivity total_bytes))
                       (emit (GraphUpdate sent recv) (emit (SpeedUpdate sent recv) st1));
               (anomaly, st3) = detect_anomalies B st2 total_bytes
           in if anomaly then
                (case troubleshoot B (emit (Update AnomalyDetected) st3) (probes env) of
                   (Some e, st4) \<Rightarrow> (Some e, st4)
                 | (None, st4) \<Rightarrow> (py_sleep (check_interval st4), st4))
              else (py_sleep (check_interval st3), st3)))"

text \<open>
  The loop, over the iterations whose library calls are given: it has returned (the flag
  was found cleared), an exception has left it, or it is still running when the given
  iterations are used up.
\<close>

datatype run_status = Returned | Raised exn | Pending

fun run :: "builtins \<Rightarrow> monitor \<Rightarrow> tick_env list \<Rightarrow> run_status \<times> monitor" where
  "run B st [] = (if running st then Pending else Returned, st)"
| "run B st (env # envs) =
     (if running st then
        (case run_body B st env of
           (Some e, st') \<Rightarrow> (Raised e, st')
         | (None, st') \<Rightarrow> run B st' envs)
      else (Returned, st))"

definition stop :: "monitor \<Rightarrow> monitor" where
  "stop st = st\<lparr>running := False\<rparr>"

section \<open>Sequences of calls and kinds of outcome\<close>

text \<open>Latency probes one after the other, one ping outcome each.\<close>

fun check_latency_all :: "builtins \<Rightarrow> monitor \<Rightarrow> (exn + completed) list \<Rightarrow> monitor" where
  "check_latency_all B st [] = st"
| "check_latency_all B st (r # rs) = check_latency_all B (check_latency B st r) rs"

text \<open>A ping outcome on which the latency probe succeeds with round-trip time \<open>l\<close>: the
  process exited with 0, its output has a third field from the end between slashes, and
  \<^verbatim>\<open>float\<close> reads that field as \<open>l\<close>.\<close>

definition ping_gives :: "builtins \<Rightarrow> exn + completed \<Rightarrow> real \<Rightarrow> bool" where
  "ping_gives B r l =
     (case r of
        Inl _ \<Rightarrow> False
      | Inr result \<Rightarrow>
          returncode result = 0 \<and>
          (case index_neg3 (split_on CHR ''/'' (stdout result)) of
             Inl _ \<Rightarrow> False
           | Inr s \<Rightarrow> float_of B s = Inr l))"

text \<open>The five probes, and the probe whose outcome a signal reports.\<close>

datatype probe = Dns | Latency | Loss | Http | Bandwidth

fun reports :: "signal \<Rightarrow> probe option" where
  "reports (Update DnsOk) = Some Dns"
| "reports (Update DnsFailed) = Some Dns"
| "reports (Update (LatencyMs l)) = Some Latency"
| "reports (Update PingFailed) = Some Latency"
| "reports (Update PingTimedOut) = Some Latency"
| "reports (Update (LatencyError m)) = Some Latency"
| "reports (Update (PacketLoss p)) = Some Loss"
| "reports (Update PacketLossFailed) = Some Loss"
| "reports (Update PacketLossTimedOut) = Some Loss"
| "reports (Update (PacketLossError m)) = Some Loss"
| "reports (Update (HttpResponse c)) = Some Http"
| "reports (Update (HttpError m)) = Some Http"
| "reports (Update (DownloadSpeed d)) = Some Bandwidth"
| "reports (Update (UploadSpeed u)) = Some Bandwidth"
| "reports (Update (SpeedError m)) = Some Bandwidth"
| "reports s = None"

text \<open>
  The outcomes of the name lookup and of the HTTP request that are a success or the
  failure of the probe: the lookup fails with \<^verbatim>\<open>socket.gaierror\<close>, the request (connection
  error or timeout) with a \<^verbatim>\<open>requests.RequestException\<close>.
\<close>

definition dns_outcome :: "exn + unit \<Rightarrow> bool" where
  "dns_outcome r = (case r of Inr _ \<Rightarrow> True | Inl e \<Rightarrow> fst e = Gaierror)"

definition http_outcome :: "exn + int \<Rightarrow> bool" where
  "http_outcome r = (case r of Inr _ \<Rightarrow> True | Inl e \<Rightarrow> fst e = RequestException)"

text \<open>The signals emitted between an earlier and a later state of the monitor.\<close>

definition signals_since :: "monitor \<Rightarrow> monitor \<Rightarrow> signal list" where
  "signals_since st st' = drop (length (emitted st)) (emitted st')"

text \<open>Both windows have their bound and are within it.\<close>

definition windows_within :: "nat \<Rightarrow> nat \<Rightarrow> monitor \<Rightarrow> bool" where
  "windows_within n k st \<longleftrightarrow>
     maxlen (speed_history st) = n \<and> maxlen (connection_history st) = k \<and>
     deque_len (speed_history st) \<le> n \<and> deque_len (connection_history st) \<le> k"

section \<open>Example inputs\<close>

text \<open>
  Stand-ins for the builtins in the examples. \<^verbatim>\<open>float\<close> and \<^verbatim>\<open>int\<close> read a non-empty string
  of ASCII digits as Python does and raise \<^verbatim>\<open>ValueError\<close> on every other string. The
  arithmetic is exact; the examples use it only on values on which binary floating-point
  arithmetic is exact as well (integers of a few digits, their differences, squares and
  sums, and quotients and square roots that are integers again).
\<close>

definition digit_value :: "char \<Rightarrow> nat option" where
  "digit_value c = map_of (zip ''0123456789'' [0, 1, 2, 3, 4, 5, 6, 7, 8, 9]) c"

fun read_digits_from :: "nat \<Rightarrow> string \<Rightarrow> nat option" where
  "read_digits_from n [] = Some n"
| "read_digits_from n (c # cs) =
     (case digit_value c of None \<Rightarrow> None | Some d \<Rightarrow> read_digits_from (10 * n + d) cs)"

definition read_digits :: "string \<Rightarrow> nat option" where
  "read_digits s = (if s = [] then None else read_digits_from 0 s)"

definition digit_builtins :: builtins where
  "digit_builtins =
     \<lparr>float_of = (\<lambda>s. case read_digits s of
                        None \<Rightarrow> Inl (ValueError, ''could not convert string to float'')
                      | Some n \<Rightarrow> Inr (real n)),
      int_of = (\<lambda>s. case read_digits s of
                      None \<Rightarrow> Inl (ValueError, ''invalid literal for int() with base 10'')
                    | Some n \<Rightarrow> Inr (int n)),
      int_truediv = (\<lambda>a b. real_of_int a / real_of_int b),
      to_float = real_of_int,
      float_sub = (\<lambda>a b. a - b),
      float_mul = (\<lambda>a b. a * b),
      float_truediv = (\<lambda>a b. a / b),
      float_pow = (\<lambda>a b. if b = 2 then a * a else if b = 1 / 2 then sqrt a else a powr b),
      float_sum = sum_list\<rparr>"

text \<open>A ping that exits with 0 and prints the given round-trip summary.\<close>

definition ping_ok :: "string \<Rightarrow> exn + completed" where
  "ping_ok out = Inr \<lparr>returncode = 0, stdout = out\<rparr>"

text \<open>A monitor as \<^verbatim>\<open>NetworkMonitor("192.0.2.1")\<close> builds it (threshold 2, interval 1, history
  size 60), and the same monitor after nine samples of 100 bytes.\<close>

definition zero_counters :: counters where
  "zero_counters = \<lparr>bytes_sent = 0, bytes_recv = 0\<rparr>"

definition fresh_monitor :: monitor where
  "fresh_monitor = init ''192.0.2.1'' 2 1 60 zero_counters zero_counters"


text \<open>A monitor with history size 3, and twelve successful pings with averages 20 to 31.\<close>

definition small_monitor :: monitor where
  "small_monitor = init ''192.0.2.1'' 2 1 3 zero_counters zero_counters"

definition twelve_pings :: "(exn + completed) list" where
  "twelve_pings =
     map (\<lambda>avg. ping_ok (''rtt min/avg/max/mdev = 19/'' @ avg @ ''/40/1 ms''))
       [''20'', ''21'', ''22'', ''23'', ''24'', ''25'', ''26'', ''27'', ''28'', ''29'', ''30'', ''31'']"

text \<open>The fresh monitor with a given latency window.\<close>

definition with_latencies :: "real list \<Rightarrow> monitor" where
  "with_latencies ls = fresh_monitor\<lparr>connection_history := \<lparr>items = ls, maxlen = 10\<rparr>\<rparr>"

text \<open>
  A ping that exits with 0 and prints no line with \<^verbatim>\<open>packets transmitted\<close>, and one whose
  output has a line with these words in which the first and the third word are the given
  ones.
\<close>

definition quiet_ping :: completed where
  "quiet_ping = \<lparr>returncode = 0,
     stdout = ''PING 192.0.2.1 56(84) bytes of data.'' @ [CHR 0x0A] @
              ''64 bytes from 192.0.2.1: icmp_seq=1 ttl=64 time=20 ms'' @ [CHR 0x0A]\<rparr>"

definition counted_ping :: "string \<Rightarrow> string \<Rightarrow> completed" where
  "counted_ping sent received = \<lparr>returncode = 0,
     stdout = ''PING 192.0.2.1 56(84) bytes of data.'' @ [CHR 0x0A] @
              sent @ '' now '' @ received @ '' of the packets transmitted came back'' @ [CHR 0x0A]\<rparr>"

text \<open>
  The library calls of a troubleshooting step in which the name resolves, the latency ping
  reports an average of 20 ms, the packet-loss ping runs into its timeout, the HTTP
  request is answered with 200 and the speed test measures 94 and 11 Mbit/s.
\<close>

definition partial_failure_env :: probe_env where
  "partial_failure_env =
     \<lparr>dns_call = Inr (),
      latency_ping = ping_ok ''rtt min/avg/max/mdev = 19/20/21/1 ms'',
      loss_ping = Inl (TimeoutExpired, ''Command ping timed out after 15 seconds''),
      http_call = Inr 200,
      speedtest_call = Inr (94000000, 11000000)\<rparr>"

text \<open>
  The library calls of a step in which every probe fails in the way its handlers expect:
  the lookup with \<^verbatim>\<open>socket.gaierror\<close>, the latency ping with exit status 1, the
  packet-loss ping because the program is missing, the request with a
  \<^verbatim>\<open>requests.ConnectionError\<close> and the speed test with an exception of its own.
\<close>

definition all_failing_env :: probe_env where
  "all_failing_env =
     \<lparr>dns_call = Inl (Gaierror, ''[Errno -3] Temporary failure in name resolution''),
      latency_ping = Inr \<lparr>returncode = 1, stdout = []\<rparr>,
      loss_ping = Inl (OtherException, ''[Errno 2] No such file or directory: ping''),
      http_call = Inl (RequestException, ''Connection refused''),
      speedtest_call = Inl (OtherException, ''Unable to connect to servers'')\<rparr>"

text \<open>
  The first step again, but with a lookup, and then with a request, that raises an
  exception of a class its handler does not name.
\<close>

definition stray_exception :: exn where
  "stray_exception = (OtherException, ''unexpected error'')"

definition dns_stray_env :: probe_env where
  "dns_stray_env = partial_failure_env\<lparr>dns_call := Inl stray_exception\<rparr>"

definition http_stray_env :: probe_env where
  "http_stray_env = partial_failure_env\<lparr>http_call := Inl stray_exception\<rparr>"

text \<open>
  A failing read of the counters, and an iteration of the loop whose first read fails so.
\<close>

definition read_failure :: exn where
  "read_failure = (OtherException, ''Permission denied'')"

definition failing_tick :: "exn + counters \<Rightarrow> probe_env \<Rightarrow> tick_env" where
  "failing_tick r2 p = \<lparr>sent_read = Inl read_failure, recv_read = r2, probes = p\<rparr>"

section \<open>Properties of the bounded deque\<close>

lemma deque_append_maxlen: "maxlen (deque_append d x) = maxlen d"
  by (simp add: deque_append_def Let_def)

lemma deque_append_items:
  "items (deque_append d x) =
     (if maxlen d < Suc (length (items d)) then tl (items d @ [x]) else items d @ [x])"
  by (simp add: deque_append_def Let_def)

lemma deque_append_bounded:
  "length (items d) \<le> maxlen d \<Longrightarrow> length (items (deque_append d x)) \<le> maxlen d"
  by (simp add: deque_append_items)

lemma deque_append_drop:
  "length (items d) \<le> maxlen d \<Longrightarrow>
   items (deque_append d x) = drop (Suc (length (items d)) - maxlen d) (items d @ [x])"
  by (cases "items d") (auto simp: deque_append_items drop_Cons')


section \<open>Properties of the anomaly detector\<close>

lemma detect_anomalies_state:
  "snd (detect_anomalies B st x) = st\<lparr>speed_history := deque_append (speed_history st) x\<rparr>"
  by (simp add: detect_anomalies_def Let_def)

lemma detect_anomalies_flag:
  "fst (detect_anomalies B st x) =
     (let w = items (deque_append (speed_history st) x)
      in 10 \<le> length w \<and>
         float_mul B (anomaly_threshold st) (population_stddev B w)
           < \<bar>float_sub B (to_float B x) (population_mean B w)\<bar>)"
  by (simp add: detect_anomalies_def Let_def population_stddev_def squared_distances_def
      population_mean_def)



text \<open>
  Where no operation rounds, mean and deviation are those of the reals. With rounding
  they need not be: a window that is tied over the reals, such as eight totals of 100 and
  two of 103 at threshold 2, need not be tied in the computed values.
\<close>

lemma sum_list_of_int: "sum_list (map real_of_int h) = real_of_int (sum_list h)"
  by (induction h) simp_all

lemma exact_population_mean:
  "exact_arithmetic B \<Longrightarrow>
   population_mean B w = sum_list (map real_of_int w) / real (length w)"
  by (simp add: exact_arithmetic_def population_mean_def sum_list_of_int)

lemma exact_population_stddev:
  "exact_arithmetic B \<Longrightarrow>
   population_stddev B w
     = sqrt (sum_list (map (\<lambda>x. (real_of_int x - population_mean B w) ^ 2) w) / real (length w))"
  by (simp add: exact_arithmetic_def population_stddev_def squared_distances_def power2_eq_square)

lemma observe_all_cold:
  "length (items (speed_history st)) + length xs < 10 \<Longrightarrow>
   fst (observe_all B st xs) = replicate (length xs) False"
proof (induction xs arbitrary: st)
  case Nil
  then show ?case by simp
next
  case (Cons x xs)
  have len: "length (items (deque_append (speed_history st) x))
      \<le> Suc (length (items (speed_history st)))"
    by (simp add: deque_append_items)
  with Cons.prems have short: "length (items (deque_append (speed_history st) x)) < 10"
    by simp
  then have flag: "fst (detect_anomalies B st x) = False"
    by (simp add: detect_anomalies_flag Let_def)
  have "length (items (speed_history (snd (detect_anomalies B st x)))) + length xs < 10"
    using len Cons.prems by (simp add: detect_anomalies_state)
  then have "fst (observe_all B (snd (detect_anomalies B st x)) xs) = replicate (length xs) False"
    by (rule Cons.IH)
  with flag show ?case
    by (simp add: split_beta Let_def)
qed

lemma observe_all_take:
  "take k (fst (observe_all B st xs)) = fst (observe_all B st (take k xs))"
proof (induction xs arbitrary: st k)
  case Nil
  then show ?case by simp
next
  case (Cons x xs)
  then show ?case
    by (cases k) (simp_all add: split_beta Let_def)
qed

text \<open>
  C2. Whatever the sample, \<open>detect_anomalies\<close> returns false when the window after the
  append holds fewer than 10 samples; and starting from an empty window, the first nine
  calls of any sequence of calls all return false.
\<close>

theorem detect_anomalies_cold_start:
  "(deque_len (speed_history (snd (detect_anomalies B st x))) < 10 \<longrightarrow>
      \<not> fst (detect_anomalies B st x)) \<and>
   (items (speed_history st) = [] \<longrightarrow>
      take 9 (fst (observe_all B st xs)) = replicate (min 9 (length xs)) False)"
proof (intro conjI impI)
  assume "deque_len (speed_history (snd (detect_anomalies B st x))) < 10"
  then show "\<not> fst (detect_anomalies B st x)"
    by (simp add: detect_anomalies_flag detect_anomalies_state deque_len_def Let_def)
next
  assume e: "items (speed_history st) = []"
  have "length (items (speed_history st)) + length (take 9 xs) < 10"
    using e by simp
  then have "fst (observe_all B st (take 9 xs)) = replicate (length (take 9 xs)) False"
    by (rule observe_all_cold)
  then show "take 9 (fst (observe_all B st xs)) = replicate (min 9 (length xs)) False"
    by (simp add: observe_all_take min.commute)
qed

text \<open>The theorem at the fresh monitor: a first sample of 100000 is no anomaly, and of
  twelve samples ending in large ones the first nine are none.\<close>

theorem detect_anomalies_cold_start_witness:
  "deque_len (speed_history (snd (detect_anomalies digit_builtins fresh_monitor 100000))) < 10 \<and>
   \<not> fst (detect_anomalies digit_builtins fresh_monitor 100000) \<and>
   items (speed_history fresh_monitor) = [] \<and>
   take 9 (fst (observe_all digit_builtins fresh_monitor
       [100, 100, 100, 100, 100, 100, 100, 100, 100, 100000, 5, 7]))
     = replicate 9 False"
proof -
  have a: "deque_len
      (speed_history (snd (detect_anomalies digit_builtins fresh_monitor 100000))) < 10"
    by (simp add: deque_len_def detect_anomalies_state deque_append_items fresh_monitor_def
        init_def deque_new_def)
  have b: "items (speed_history fresh_monitor) = []"
    by (simp add: fresh_monitor_def init_def deque_new_def)
  show ?thesis
    using a b detect_anomalies_cold_start [of digit_builtins fresh_monitor 100000
        "[100, 100, 100, 100, 100, 100, 100, 100, 100, 100000, 5, 7]"]
    by (simp del: observe_all.simps add: eval_nat_numeral)
qed

section \<open>Properties of the windows\<close>

lemma deque_fold_maxlen: "maxlen (foldl deque_append d vs) = maxlen d"
  by (induction vs arbitrary: d) (simp_all add: deque_append_maxlen)

lemma drop_drop_append:
  "b \<le> length ys \<Longrightarrow> drop a (drop b ys @ vs) = drop (a + b) (ys @ vs)"
proof -
  assume "b \<le> length ys"
  then have e: "drop b (ys @ vs) = drop b ys @ vs" by simp
  have "drop (a + b) (ys @ vs) = drop a (drop b (ys @ vs))" by (simp only: drop_drop)
  then show ?thesis by (simp only: e)
qed

lemma deque_fold_items:
  "length (items d) \<le> maxlen d \<Longrightarrow>
   items (foldl deque_append d vs)
     = drop (length (items d) + length vs - maxlen d) (items d @ vs)"
proof (induction vs arbitrary: d)
  case Nil
  then show ?case by simp
next
  case (Cons v vs)
  let ?d = "deque_append d v"
  let ?b = "Suc (length (items d)) - maxlen d"
  have b: "length (items ?d) \<le> maxlen ?d"
    using Cons.prems by (simp add: deque_append_bounded deque_append_maxlen)
  have i: "items ?d = drop ?b (items d @ [v])"
    using Cons.prems by (rule deque_append_drop)
  have bl: "?b \<le> length (items d @ [v])" by simp
  have li: "length (items ?d) = Suc (length (items d)) - ?b"
    by (simp add: i)
  have ar: "length (items ?d) + length vs - maxlen ?d + ?b
      = length (items d) + length (v # vs) - maxlen d"
    using Cons.prems by (simp add: li deque_append_maxlen)
  have "items (foldl deque_append ?d vs)
      = drop (length (items ?d) + length vs - maxlen ?d) (items ?d @ vs)"
    using b by (rule Cons.IH)
  also have "\<dots> = drop (length (items ?d) + length vs - maxlen ?d)
      (drop ?b (items d @ [v]) @ vs)"
    by (simp only: i[symmetric])
  also have "\<dots> = drop (length (items ?d) + length vs - maxlen ?d + ?b)
      ((items d @ [v]) @ vs)"
    using bl by (rule drop_drop_append)
  also have "\<dots> = drop (length (items d) + length (v # vs) - maxlen d) (items d @ v # vs)"
    by (simp only: ar) simp
  finally show ?case by simp
qed

lemma deque_fold_bounded:
  "length (items d) \<le> maxlen d \<Longrightarrow> length (items (foldl deque_append d vs)) \<le> maxlen d"
proof (induction vs arbitrary: d)
  case Nil
  then show ?case by simp
next
  case (Cons v vs)
  have "length (items (deque_append d v)) \<le> maxlen (deque_append d v)"
    using Cons.prems by (simp add: deque_append_bounded deque_append_maxlen)
  then have "length (items (foldl deque_append (deque_append d v) vs))
      \<le> maxlen (deque_append d v)"
    by (rule Cons.IH)
  then show ?case by (simp add: deque_append_maxlen)
qed

lemma observe_all_history:
  "speed_history (snd (observe_all B st vs)) = foldl deque_append (speed_history st) vs"
  by (induction vs arbitrary: st) (simp_all add: split_beta Let_def detect_anomalies_state)

lemma emit_windows [simp]:
  "speed_history (emit s st) = speed_history st"
  "connection_history (emit s st) = connection_history st"
  by (simp_all add: emit_def)

lemma check_latency_speed_history [simp]:
  "speed_history (check_latency B st r) = speed_history st"
  by (simp add: check_latency_def check_latency_try_def split: sum.splits)

lemma check_latency_success:
  "ping_gives B r l \<Longrightarrow>
   check_latency B st r
     = emit (Update (LatencyMs l))
         (st\<lparr>connection_history := deque_append (connection_history st) l\<rparr>)"
  by (auto simp: ping_gives_def check_latency_def check_latency_try_def split: sum.splits)

lemma check_latency_history:
  "connection_history (check_latency B st r) = connection_history st \<or>
   (\<exists>l. ping_gives B r l \<and>
      connection_history (check_latency B st r) = deque_append (connection_history st) l)"
  by (auto simp: ping_gives_def check_latency_def check_latency_try_def split: sum.splits)

lemma check_packet_loss_windows [simp]:
  "speed_history (check_packet_loss B st r) = speed_history st"
  "connection_history (check_packet_loss B st r) = connection_history st"
  by (simp_all add: check_packet_loss_def check_packet_loss_try_def split: sum.splits prod.splits)

lemma check_dns_resolution_windows [simp]:
  "speed_history (snd (check_dns_resolution st r)) = speed_history st"
  "connection_history (snd (check_dns_resolution st r)) = connection_history st"
  by (simp_all add: check_dns_resolution_def split: sum.splits)

lemma check_http_response_windows [simp]:
  "speed_history (snd (check_http_response st r)) = speed_history st"
  "connection_history (snd (check_http_response st r)) = connection_history st"
  by (simp_all add: check_http_response_def split: sum.splits)

lemma check_internet_speed_windows [simp]:
  "speed_history (snd (check_internet_speed st r)) = speed_history st"
  "connection_history (snd (check_internet_speed st r)) = connection_history st"
  by (simp_all add: check_internet_speed_def Let_def split: sum.splits prod.splits)

lemma analyze_connection_stability_state: "snd (analyze_connection_stability B st) = st"
  by (simp add: analyze_connection_stability_def Let_def)

lemma windows_within_same:
  "windows_within n k st \<Longrightarrow> speed_history st' = speed_history st \<Longrightarrow>
   connection_history st' = connection_history st \<Longrightarrow> windows_within n k st'"
  by (simp add: windows_within_def)

lemma windows_within_check_latency:
  "windows_within n k st \<Longrightarrow> windows_within n k (check_latency B st r)"
  using check_latency_history [of B st r]
  by (auto simp: windows_within_def deque_len_def deque_append_maxlen deque_append_bounded)

lemma windows_within_detect_anomalies:
  "windows_within n k st \<Longrightarrow> windows_within n k (snd (detect_anomalies B st x))"
  using deque_append_bounded [of "speed_history st" x]
  by (simp add: windows_within_def deque_len_def detect_anomalies_state deque_append_maxlen)

lemma windows_within_dns:
  "windows_within n k st \<Longrightarrow> check_dns_resolution st r = (e, st') \<Longrightarrow> windows_within n k st'"
  using check_dns_resolution_windows [of st r] by (simp add: windows_within_def)

lemma windows_within_http:
  "windows_within n k st \<Longrightarrow> check_http_response st r = (e, st') \<Longrightarrow> windows_within n k st'"
  using check_http_response_windows [of st r] by (simp add: windows_within_def)

lemma windows_within_troubleshoot:
  assumes w: "windows_within n k st"
  shows "windows_within n k (snd (troubleshoot B st env))"
proof -
  obtain e1 st1 where d: "check_dns_resolution st (dns_call env) = (e1, st1)"
    by (cases "check_dns_resolution st (dns_call env)")
  have w1: "windows_within n k st1"
    using w d by (rule windows_within_dns)
  show ?thesis
  proof (cases e1)
    case (Some e)
    with d w1 show ?thesis by (simp add: troubleshoot_def)
  next
    case None
    let ?st2 = "check_latency B st1 (latency_ping env)"
    let ?st3 = "check_packet_loss B ?st2 (loss_ping env)"
    have w3: "windows_within n k ?st3"
      using windows_within_same [OF windows_within_check_latency [OF w1]] by simp
    obtain e4 st4 where h: "check_http_response ?st3 (http_call env) = (e4, st4)"
      by (cases "check_http_response ?st3 (http_call env)")
    have w4: "windows_within n k st4"
      using w3 h by (rule windows_within_http)
    show ?thesis
    proof (cases e4)
      case (Some e)
      with d None h w4 show ?thesis by (simp add: troubleshoot_def Let_def)
    next
      case n4: None
      let ?st5 = "snd (check_internet_speed st4 (speedtest_call env))"
      have w5: "windows_within n k ?st5"
        using windows_within_same [OF w4] by simp
      have "snd (troubleshoot B st env)
          = emit (Update (ConnectionStability (fst (analyze_connection_stability B ?st5)))) ?st5"
        using d None h n4
        by (simp add: troubleshoot_def Let_def split_beta analyze_connection_stability_state)
      then show ?thesis
        using windows_within_same [OF w5] by simp
    qed
  qed
qed

lemma get_network_speed_windows [simp]:
  "speed_history (snd (get_network_speed st r1 r2)) = speed_history st"
  "connection_history (snd (get_network_speed st r1 r2)) = connection_history st"
  by (simp_all add: get_network_speed_def Let_def split: sum.splits)

lemma windows_within_run_body:
  assumes w: "windows_within n k st"
  shows "windows_within n k (snd (run_body B st env))"
proof (cases "fst (get_network_speed st (sent_read env) (recv_read env))")
  case (Inl e)
  then have "snd (run_body B st env) = snd (get_network_speed st (sent_read env) (recv_read env))"
    by (simp add: run_body_def split_beta split: prod.splits sum.splits)
  then show ?thesis using windows_within_same [OF w] by simp
next
  case (Inr p)
  let ?st1 = "snd (get_network_speed st (sent_read env) (recv_read env))"
  let ?st2 = "emit (Update (NetworkActivity (fst p + snd p)))
                (emit (GraphUpdate (fst p) (snd p)) (emit (SpeedUpdate (fst p) (snd p)) ?st1))"
  let ?st3 = "snd (detect_anomalies B ?st2 (fst p + snd p))"
  have w2: "windows_within n k ?st2"
    using windows_within_same [OF w] by simp
  have w3: "windows_within n k ?st3"
    using w2 by (rule windows_within_detect_anomalies)
  have w4: "windows_within n k (snd (troubleshoot B (emit (Update AnomalyDetected) ?st3) (probes env)))"
    using windows_within_same [OF w3, of "emit (Update AnomalyDetected) ?st3"]
    by (simp add: windows_within_troubleshoot)
  have "snd (run_body B st env) = ?st3 \<or>
        snd (run_body B st env) = snd (troubleshoot B (emit (Update AnomalyDetected) ?st3) (probes env))"
    using Inr
    by (auto simp: run_body_def Let_def split_beta split: prod.splits sum.splits option.splits)
  with w3 w4 show ?thesis by auto
qed

lemma windows_within_run:
  "windows_within n k st \<Longrightarrow> windows_within n k (snd (run B st envs))"
proof (induction envs arbitrary: st)
  case Nil
  then show ?case by simp
next
  case (Cons env envs)
  have b: "windows_within n k (snd (run_body B st env))"
    using Cons.prems by (rule windows_within_run_body)
  show ?case
  proof (cases "running st")
    case False
    with Cons.prems show ?thesis by simp
  next
    case True
    obtain e st' where r: "run_body B st env = (e, st')"
      by (cases "run_body B st env")
    with b have w': "windows_within n k st'" by simp
    show ?thesis
    proof (cases e)
      case None
      with True r Cons.IH [OF w'] show ?thesis by simp
    next
      case (Some x)
      with True r w' show ?thesis by simp
    qed
  qed
qed

lemma windows_within_init: "windows_within n 10 (init ip t i n c1 c2)"
  by (simp add: windows_within_def init_def deque_new_def deque_len_def)

lemma check_latency_all_history:
  "list_all2 (ping_gives B) rs ls \<Longrightarrow>
   connection_history (check_latency_all B st rs) = foldl deque_append (connection_history st) ls"
proof (induction rs ls arbitrary: st rule: list_all2_induct)
  case Nil
  then show ?case by simp
next
  case (Cons r rs l ls)
  then show ?case by (simp add: check_latency_success)
qed

lemma windows_within_check_latency_all:
  "windows_within n k st \<Longrightarrow> windows_within n k (check_latency_all B st rs)"
  by (induction rs arbitrary: st) (simp_all add: windows_within_check_latency)

lemma windows_within_observe_all:
  "windows_within n k st \<Longrightarrow> windows_within n k (snd (observe_all B st vs))"
  by (induction vs arbitrary: st) (simp_all add: split_beta Let_def windows_within_detect_anomalies)

text \<open>
  C3. From a monitor as the constructor builds it with history size \<open>n\<close>, the speed window
  never holds more than \<open>n\<close> entries and the latency window never more than 10, after any
  run of the loop, any sequence of detector calls and any sequence of latency probes; and
  after \<open>n + k\<close> totals the speed window is exactly the last \<open>n\<close> of them in order, after
  \<open>10 + j\<close> successful latency probes the latency window exactly the last 10 round-trip
  times in order.
\<close>

theorem windows_bounded_fifo:
  "(let m = init ip threshold interval n c1 c2
    in deque_len (speed_history (snd (run B m envs))) \<le> n \<and>
       deque_len (connection_history (snd (run B m envs))) \<le> 10 \<and>
       deque_len (speed_history (snd (observe_all B m vs))) \<le> n \<and>
       deque_len (connection_history (check_latency_all B m rs)) \<le> 10 \<and>
       (length vs = n + k \<longrightarrow> items (speed_history (snd (observe_all B m vs))) = drop k vs) \<and>
       (list_all2 (ping_gives B) rs ls \<and> length ls = 10 + j \<longrightarrow>
          items (connection_history (check_latency_all B m rs)) = drop j ls))"
proof -
  let ?m = "init ip threshold interval n c1 c2"
  have w: "windows_within n 10 ?m" by (rule windows_within_init)
  have e: "items (speed_history ?m) = []" "maxlen (speed_history ?m) = n"
    "items (connection_history ?m) = []" "maxlen (connection_history ?m) = 10"
    by (simp_all add: init_def deque_new_def)
  have r: "deque_len (speed_history (snd (run B ?m envs))) \<le> n \<and>
      deque_len (connection_history (snd (run B ?m envs))) \<le> 10"
    using windows_within_run [OF w, of B envs] by (simp add: windows_within_def)
  have o: "deque_len (speed_history (snd (observe_all B ?m vs))) \<le> n"
    using windows_within_observe_all [OF w, of B vs] by (simp add: windows_within_def)
  have c: "deque_len (connection_history (check_latency_all B ?m rs)) \<le> 10"
    using windows_within_check_latency_all [OF w, of B rs] by (simp add: windows_within_def)
  have s: "items (speed_history (snd (observe_all B ?m vs))) = drop k vs" if "length vs = n + k"
    using that deque_fold_items [of "speed_history ?m" vs]
    by (simp add: observe_all_history e)
  have l: "items (connection_history (check_latency_all B ?m rs)) = drop j ls"
    if "list_all2 (ping_gives B) rs ls" "length ls = 10 + j"
    using that deque_fold_items [of "connection_history ?m" ls]
    by (simp add: check_latency_all_history e)
  show ?thesis
    unfolding Let_def using r o c s l by blast
qed

text \<open>The theorem with history size 3 and five totals, and with the twelve pings.\<close>

lemma twelve_pings_give:
  "list_all2 (ping_gives digit_builtins) twelve_pings [20, 21, 22, 23, 24, 25, 26, 27, 28, 29, 30, 31]"
  by (simp add: twelve_pings_def ping_ok_def ping_gives_def index_neg3_def digit_builtins_def
      read_digits_def digit_value_def)

theorem windows_bounded_fifo_witness:
  "length [1, 2, 3, 4, 5 :: int] = 3 + 2 \<and>
   items (speed_history (snd (observe_all digit_builtins small_monitor [1, 2, 3, 4, 5]))) = [3, 4, 5] \<and>
   list_all2 (ping_gives digit_builtins) twelve_pings
     [20, 21, 22, 23, 24, 25, 26, 27, 28, 29, 30, 31] \<and>
   length [20, 21, 22, 23, 24, 25, 26, 27, 28, 29, 30, 31 :: real] = 10 + 2 \<and>
   items (connection_history (check_latency_all digit_builtins small_monitor twelve_pings))
     = [22, 23, 24, 25, 26, 27, 28, 29, 30, 31]"
  using twelve_pings_give
    windows_bounded_fifo [of "''192.0.2.1''" 2 1 3 zero_counters zero_counters digit_builtins "[]"
      "[1, 2, 3, 4, 5]" twelve_pings 2 "[20, 21, 22, 23, 24, 25, 26, 27, 28, 29, 30, 31]" 2]
  by (simp add: Let_def small_monitor_def del: observe_all.simps check_latency_all.simps)

section \<open>Properties of the analyzer and of the packet-loss probe\<close>

lemma variations_consecutive_diffs:
  "map (\<lambda>i. \<bar>float_sub B (h ! i) (h ! (i - 1))\<bar>) [1..<length h] = consecutive_diffs B h"
proof (induction B h rule: consecutive_diffs.induct)
  case (1 B a b xs)
  have u: "[1..<length (a # b # xs)] = 1 # map Suc [1..<length (b # xs)]"
    by (simp add: map_Suc_upt upt_conv_Cons del: upt_Suc)
  have "map (\<lambda>i. \<bar>float_sub B ((a # b # xs) ! i) ((a # b # xs) ! (i - 1))\<bar>)
          (map Suc [1..<length (b # xs)])
      = map (\<lambda>i. \<bar>float_sub B ((b # xs) ! i) ((b # xs) ! (i - 1))\<bar>) [1..<length (b # xs)]"
    by (auto simp: nth_Cons' simp del: upt_Suc)
  with 1 u show ?case by (simp del: upt_Suc)
qed simp_all

text \<open>
  C4. The analyzer returns the insufficient-data verdict when the latency window holds
  fewer than 5 entries; otherwise it takes the mean of the absolute differences of
  consecutive entries in chronological order and returns the stable verdict when the mean
  is below 5, the moderate one when it is at least 5 and below 20, the unstable one
  otherwise. Differences and mean are the values the arithmetic of the program computes,
  whatever its rounding: a computed mean of exactly 5 is moderate, one of exactly 20
  unstable.
\<close>

theorem analyze_connection_stability_verdict:
  "fst (analyze_connection_stability B st) =
     (let h = items (connection_history st);
          d = consecutive_diffs B h;
          m = float_truediv B (float_sum B d) (to_float B (int (length d)))
      in if length h < 5 then ''Not enough data for stability analysis''
         else if m < 5 then ''Stable connection''
         else if m < 20 then ''Moderate fluctuations''
         else ''Unstable connection'')"
  unfolding analyze_connection_stability_def Let_def variations_consecutive_diffs
  by simp

text \<open>
  The theorem at five windows: four entries; mean variation 4; exactly 5, which is
  moderate; 19; and exactly 20, which is unstable.
\<close>

theorem analyze_connection_stability_boundaries:
  "fst (analyze_connection_stability digit_builtins (with_latencies [30, 31, 32, 33])) =
     ''Not enough data for stability analysis'' \<and>
   fst (analyze_connection_stability digit_builtins (with_latencies [30, 34, 30, 34, 30])) =
     ''Stable connection'' \<and>
   fst (analyze_connection_stability digit_builtins (with_latencies [30, 35, 30, 35, 30])) =
     ''Moderate fluctuations'' \<and>
   fst (analyze_connection_stability digit_builtins (with_latencies [30, 49, 30, 49, 30])) =
     ''Moderate fluctuations'' \<and>
   fst (analyze_connection_stability digit_builtins (with_latencies [30, 50, 30, 50, 30])) =
     ''Unstable connection''"
  using
    analyze_connection_stability_verdict [of digit_builtins "with_latencies [30, 31, 32, 33]"]
    analyze_connection_stability_verdict [of digit_builtins "with_latencies [30, 34, 30, 34, 30]"]
    analyze_connection_stability_verdict [of digit_builtins "with_latencies [30, 35, 30, 35, 30]"]
    analyze_connection_stability_verdict [of digit_builtins "with_latencies [30, 49, 30, 49, 30]"]
    analyze_connection_stability_verdict [of digit_builtins "with_latencies [30, 50, 30, 50, 30]"]
  by (simp add: with_latencies_def digit_builtins_def Let_def)

text \<open>
  C10. The analyzer reads only: the monitor after the call is the monitor before it, so
  a second call right after the first returns the same verdict.
\<close>

theorem analyze_connection_stability_pure:
  "snd (analyze_connection_stability B st) = st \<and>
   fst (analyze_connection_stability B (snd (analyze_connection_stability B st)))
     = fst (analyze_connection_stability B st)"
  by (simp add: analyze_connection_stability_state)

lemma packet_loss_value:
  "packet_loss sent received =
     Inr (if 0 < sent then real_of_int (sent - received) / real_of_int sent * 100 else 0)"
  by (simp add: packet_loss_def py_truediv_def)

lemma check_packet_loss_counts:
  "returncode result = 0 \<Longrightarrow> find_counts B (splitlines (stdout result)) = Inr (sent, received) \<Longrightarrow>
   check_packet_loss B st (Inr result)
     = emit (Update (PacketLoss
         (if 0 < sent then real_of_int (sent - received) / real_of_int sent * 100 else 0))) st"
  by (simp add: check_packet_loss_def check_packet_loss_try_def packet_loss_value)

text \<open>
  C5. For all counts, the loss computed is \<open>(sent - received) / sent * 100\<close> when
  \<open>sent > 0\<close> and 0 when \<open>sent = 0\<close>; the computation never raises, its division being
  reached only with a positive divisor; and this is the loss the probe reports for the
  counts read from the output of a ping that exited with 0.
\<close>

theorem packet_loss_guarded:
  "(0 < sent \<longrightarrow>
      packet_loss sent received = Inr (real_of_int (sent - received) / real_of_int sent * 100)) \<and>
   (sent = 0 \<longrightarrow> packet_loss sent received = Inr 0) \<and>
   (\<forall>e. packet_loss sent received \<noteq> Inl e) \<and>
   (returncode result = 0 \<and> find_counts B (splitlines (stdout result)) = Inr (sent, received) \<longrightarrow>
      check_packet_loss B st (Inr result)
        = emit (Update (PacketLoss
            (if 0 < sent then real_of_int (sent - received) / real_of_int sent * 100 else 0))) st)"
  by (simp add: packet_loss_value check_packet_loss_counts)

lemma find_None: "\<forall>x \<in> set xs. \<not> P x \<Longrightarrow> find P xs = None"
  by (simp add: find_None_iff)

text \<open>
  C9. When ping exits with 0 and no line of its output contains
  \<^verbatim>\<open>packets transmitted\<close>, the counts stay 0 and 0 and the probe reports a loss of 0
  percent, not a failure; a run whose counts are read as equal reports the same.
\<close>

theorem check_packet_loss_no_statistics:
  "returncode result = 0 \<Longrightarrow>
   \<forall>line \<in> set (splitlines (stdout result)). \<not> contains ''packets transmitted'' line \<Longrightarrow>
   find_counts B (splitlines (stdout result)) = Inr (0, 0) \<and>
   check_packet_loss B st (Inr result) = emit (Update (PacketLoss 0)) st \<and>
   (returncode lossless = 0 \<and> find_counts B (splitlines (stdout lossless)) = Inr (n, n) \<longrightarrow>
      check_packet_loss B st (Inr lossless) = check_packet_loss B st (Inr result))"
proof -
  assume rc: "returncode result = 0"
    and no: "\<forall>line \<in> set (splitlines (stdout result)). \<not> contains ''packets transmitted'' line"
  from no have f: "find_counts B (splitlines (stdout result)) = Inr (0, 0)"
    by (simp add: find_counts_def find_None)
  have r: "check_packet_loss B st (Inr result) = emit (Update (PacketLoss 0)) st"
    using check_packet_loss_counts [OF rc f, of st] by simp
  have "check_packet_loss B st (Inr lossless) = emit (Update (PacketLoss 0)) st"
    if "returncode lossless = 0" "find_counts B (splitlines (stdout lossless)) = Inr (n, n)"
    using check_packet_loss_counts [OF that, of st] by simp
  with f r show ?thesis by simp
qed

lemma quiet_ping_lines:
  "list_all (\<lambda>line. \<not> contains ''packets transmitted'' line) (splitlines (stdout quiet_ping))"
  by (simp add: quiet_ping_def splitlines_def is_linebreak_def)

lemma counted_ping_counts:
  "find_counts digit_builtins (splitlines (stdout (counted_ping ''10'' ''8''))) = Inr (10, 8)"
  "find_counts digit_builtins (splitlines (stdout (counted_ping ''10'' ''10''))) = Inr (10, 10)"
  by (simp_all add: counted_ping_def splitlines_def is_linebreak_def find_counts_def
      parse_counts_def split_ws_def is_space_def digit_builtins_def read_digits_def
      digit_value_def)

text \<open>
  The theorem at 10 sent and 8 received (20 percent), at 0 and 0, and at a ping output
  from which the counts 10 and 8 are read.
\<close>

theorem packet_loss_guarded_witness:
  "(0::int) < 10 \<and> packet_loss 10 8 = Inr 20 \<and>
   packet_loss 0 0 = Inr 0 \<and>
   returncode (counted_ping ''10'' ''8'') = 0 \<and>
   find_counts digit_builtins (splitlines (stdout (counted_ping ''10'' ''8''))) = Inr (10, 8) \<and>
   check_packet_loss digit_builtins fresh_monitor (Inr (counted_ping ''10'' ''8''))
     = emit (Update (PacketLoss 20)) fresh_monitor"
  using packet_loss_guarded [of 10 8 "counted_ping ''10'' ''8''" digit_builtins fresh_monitor]
    packet_loss_guarded [of 0 0 quiet_ping digit_builtins fresh_monitor]
    counted_ping_counts(1)
  by (simp add: counted_ping_def)

text \<open>
  The theorem at the ping without a statistics line, beside a ping from whose output 10
  sent and 10 received are read.
\<close>

theorem check_packet_loss_no_statistics_witness:
  "returncode quiet_ping = 0 \<and>
   list_all (\<lambda>line. \<not> contains ''packets transmitted'' line) (splitlines (stdout quiet_ping)) \<and>
   check_packet_loss digit_builtins fresh_monitor (Inr quiet_ping)
     = emit (Update (PacketLoss 0)) fresh_monitor \<and>
   returncode (counted_ping ''10'' ''10'') = 0 \<and>
   find_counts digit_builtins (splitlines (stdout (counted_ping ''10'' ''10''))) = Inr (10, 10) \<and>
   check_packet_loss digit_builtins fresh_monitor (Inr (counted_ping ''10'' ''10''))
     = check_packet_loss digit_builtins fresh_monitor (Inr quiet_ping)"
proof -
  have rc: "returncode quiet_ping = 0" by (simp add: quiet_ping_def)
  have no: "\<forall>line \<in> set (splitlines (stdout quiet_ping)).
      \<not> contains ''packets transmitted'' line"
    using quiet_ping_lines by (simp add: list_all_iff)
  have rc': "returncode (counted_ping ''10'' ''10'') = 0" by (simp add: counted_ping_def)
  show ?thesis
    using check_packet_loss_no_statistics [OF rc no, of digit_builtins fresh_monitor
        "counted_ping ''10'' ''10''" 10]
      rc rc' quiet_ping_lines counted_ping_counts(2)
    by simp
qed

text \<open>
  On the summary line of the usual ping the first word is the number sent and the third
  word is \<^verbatim>\<open>transmitted,\<close>, on which \<^verbatim>\<open>int\<close> raises: the probe then reports the error. This
  is why the ping outputs among the example inputs carry their counts as first and third
  word.
\<close>

lemma check_packet_loss_iputils_summary:
  "int_of B ''10'' = Inr 10 \<Longrightarrow> int_of B ''transmitted,'' = Inl e \<Longrightarrow> fst e \<noteq> TimeoutExpired \<Longrightarrow>
   check_packet_loss B st
     (Inr \<lparr>returncode = 0,
           stdout = ''10 packets transmitted, 10 received, 0% packet loss, time 9013ms''\<rparr>)
     = emit (Update (PacketLossError (snd e))) st"
  by (simp add: check_packet_loss_def check_packet_loss_try_def splitlines_def is_linebreak_def
      find_counts_def parse_counts_def split_ws_def is_space_def)

section \<open>Properties of the troubleshooting step\<close>

lemma emitted_emit [simp]: "emitted (emit s st) = emitted st @ [s]"
  by (simp add: emit_def)

lemma signals_since_append:
  "emitted st' = emitted st @ sigs \<Longrightarrow> signals_since st st' = sigs"
  by (simp add: signals_since_def)

text \<open>
  What a probe emits depends on what its library call did, not on the monitor; the latency
  probe alone writes to a window, the other probes only emit.
\<close>

lemma check_dns_resolution_frame:
  "dns_outcome r \<Longrightarrow>
   check_dns_resolution st r
     = (None, st\<lparr>emitted := emitted st @ signals_since st0 (snd (check_dns_resolution st0 r))\<rparr>)"
  by (auto simp: dns_outcome_def check_dns_resolution_def signals_since_def emit_def
      split: sum.splits)

lemma check_dns_resolution_reports:
  "dns_outcome r \<Longrightarrow>
   map reports (signals_since st0 (snd (check_dns_resolution st0 r))) = [Some Dns]"
  by (auto simp: dns_outcome_def check_dns_resolution_def signals_since_def emit_def
      split: sum.splits)

lemma check_latency_frame:
  "check_latency B st r
     = st\<lparr>connection_history := connection_history (check_latency B st r),
          emitted := emitted st @ signals_since st0 (check_latency B st0 r)\<rparr>"
  by (simp add: check_latency_def check_latency_try_def signals_since_def emit_def
      split: sum.splits)

lemma check_latency_reports:
  "map reports (signals_since st0 (check_latency B st0 r)) = [Some Latency]"
  by (simp add: check_latency_def check_latency_try_def signals_since_def emit_def
      split: sum.splits)

lemma check_latency_reports_success:
  "ping_gives B r l \<Longrightarrow> signals_since st0 (check_latency B st0 r) = [Update (LatencyMs l)]"
  by (simp add: check_latency_success signals_since_def emit_def)

lemma check_packet_loss_frame:
  "check_packet_loss B st r
     = st\<lparr>emitted := emitted st @ signals_since st0 (check_packet_loss B st0 r)\<rparr>"
  by (simp add: check_packet_loss_def check_packet_loss_try_def signals_since_def emit_def
      split: sum.splits prod.splits)

lemma check_packet_loss_reports:
  "map reports (signals_since st0 (check_packet_loss B st0 r)) = [Some Loss]"
  by (simp add: check_packet_loss_def check_packet_loss_try_def signals_since_def emit_def
      split: sum.splits prod.splits)

lemma check_packet_loss_reports_timeout:
  "signals_since st0 (check_packet_loss B st0 (Inl (TimeoutExpired, t)))
     = [Update PacketLossTimedOut]"
  by (simp add: check_packet_loss_def check_packet_loss_try_def signals_since_def emit_def)

lemma check_http_response_frame:
  "http_outcome r \<Longrightarrow>
   check_http_response st r
     = (None, st\<lparr>emitted := emitted st @ signals_since st0 (snd (check_http_response st0 r))\<rparr>)"
  by (auto simp: http_outcome_def check_http_response_def signals_since_def emit_def
      split: sum.splits)

lemma check_http_response_reports:
  "http_outcome r \<Longrightarrow>
   map reports (signals_since st0 (snd (check_http_response st0 r))) = [Some Http]"
  by (auto simp: http_outcome_def check_http_response_def signals_since_def emit_def
      split: sum.splits)

lemma check_internet_speed_frame:
  "snd (check_internet_speed st r)
     = st\<lparr>emitted := emitted st @ signals_since st0 (snd (check_internet_speed st0 r))\<rparr>"
  by (simp add: check_internet_speed_def signals_since_def emit_def Let_def
      split: sum.splits prod.splits)

lemma check_internet_speed_reports:
  "remdups_adj (map reports (signals_since st0 (snd (check_internet_speed st0 r))))
     = [Some Bandwidth]"
  by (simp add: check_internet_speed_def signals_since_def emit_def Let_def
      split: sum.splits prod.splits)

lemma analyze_connection_stability_cong:
  "connection_history st' = connection_history st \<Longrightarrow>
   fst (analyze_connection_stability B st') = fst (analyze_connection_stability B st)"
  by (simp add: analyze_connection_stability_def Let_def)

lemma check_latency_connection_history_cong:
  "connection_history st' = connection_history st \<Longrightarrow>
   connection_history (check_latency B st' r) = connection_history (check_latency B st r)"
  by (simp add: check_latency_def check_latency_try_def split: sum.splits)


text \<open>
  C6, as amended. In a troubleshooting step in which the name lookup succeeds or raises
  \<^verbatim>\<open>socket.gaierror\<close> and the HTTP request succeeds or raises a
  \<^verbatim>\<open>requests.RequestException\<close>, whatever the two pings and the speed test do (exit status,
  unreadable output, timeout, any exception): the step returns normally; the signals it
  emits are exactly what the DNS probe, the latency probe, the packet-loss probe, the HTTP
  probe and the bandwidth probe each emit on their own library call, in this order, each
  probe reporting its own outcome, followed by the stability verdict; the verdict is the
  analyzer's on the latency window as the latency probe of this step left it; and the
  monitor is otherwise as the latency probe left it. In particular, when the latency
  probe succeeds and the packet-loss ping times out, the latency and the time-out are
  what these two probes report.
\<close>

theorem troubleshoot_runs_all_probes:
  assumes dns: "dns_outcome (dns_call env)" and http: "http_outcome (http_call env)"
  shows "fst (troubleshoot B st env) = None \<and>
    snd (troubleshoot B st env)
      = (check_latency B st (latency_ping env))
          \<lparr>emitted := emitted st
             @ signals_since st (snd (check_dns_resolution st (dns_call env)))
             @ signals_since st (check_latency B st (latency_ping env))
             @ signals_since st (check_packet_loss B st (loss_ping env))
             @ signals_since st (snd (check_http_response st (http_call env)))
             @ signals_since st (snd (check_internet_speed st (speedtest_call env)))
             @ [Update (ConnectionStability
                  (fst (analyze_connection_stability B
                     (check_latency B st (latency_ping env)))))]\<rparr> \<and>
    map reports (signals_since st (snd (check_dns_resolution st (dns_call env))))
      = [Some Dns] \<and>
    map reports (signals_since st (check_latency B st (latency_ping env))) = [Some Latency] \<and>
    map reports (signals_since st (check_packet_loss B st (loss_ping env))) = [Some Loss] \<and>
    map reports (signals_since st (snd (check_http_response st (http_call env))))
      = [Some Http] \<and>
    remdups_adj
      (map reports (signals_since st (snd (check_internet_speed st (speedtest_call env)))))
      = [Some Bandwidth] \<and>
    (\<forall>l t. ping_gives B (latency_ping env) l \<and> loss_ping env = Inl (TimeoutExpired, t) \<longrightarrow>
       signals_since st (check_latency B st (latency_ping env)) = [Update (LatencyMs l)] \<and>
       signals_since st (check_packet_loss B st (loss_ping env)) = [Update PacketLossTimedOut])"
proof -
  define D where "D = signals_since st (snd (check_dns_resolution st (dns_call env)))"
  define L where "L = signals_since st (check_latency B st (latency_ping env))"
  define P where "P = signals_since st (check_packet_loss B st (loss_ping env))"
  define H where "H = signals_since st (snd (check_http_response st (http_call env)))"
  define W where "W = signals_since st (snd (check_internet_speed st (speedtest_call env)))"
  define c where "c = connection_history (check_latency B st (latency_ping env))"
  define v where "v = fst (analyze_connection_stability B (check_latency B st (latency_ping env)))"
  have d: "check_dns_resolution s (dns_call env) = (None, s\<lparr>emitted := emitted s @ D\<rparr>)" for s
    unfolding D_def using dns by (rule check_dns_resolution_frame)
  have l: "check_latency B s (latency_ping env)
      = s\<lparr>connection_history := c, emitted := emitted s @ L\<rparr>"
    if "connection_history s = connection_history st" for s
  proof -
    have "connection_history (check_latency B s (latency_ping env)) = c"
      unfolding c_def using that by (rule check_latency_connection_history_cong)
    then show ?thesis
      unfolding L_def using check_latency_frame [of B s "latency_ping env" st] by simp
  qed
  have p: "check_packet_loss B s (loss_ping env) = s\<lparr>emitted := emitted s @ P\<rparr>" for s
    unfolding P_def by (rule check_packet_loss_frame)
  have h: "check_http_response s (http_call env) = (None, s\<lparr>emitted := emitted s @ H\<rparr>)" for s
    unfolding H_def using http by (rule check_http_response_frame)
  have w: "snd (check_internet_speed s (speedtest_call env)) = s\<lparr>emitted := emitted s @ W\<rparr>"
    for s
    unfolding W_def by (rule check_internet_speed_frame)
  have a: "fst (analyze_connection_stability B s) = v" if "connection_history s = c" for s
    unfolding v_def using that c_def by (intro analyze_connection_stability_cong) simp
  have t: "troubleshoot B st env
      = (None, st\<lparr>connection_history := c,
           emitted := emitted st @ D @ L @ P @ H @ W @ [Update (ConnectionStability v)]\<rparr>)"
    by (simp add: troubleshoot_def d l p h w a Let_def split_beta
        analyze_connection_stability_state emit_def)
  have f: "(check_latency B st (latency_ping env))
        \<lparr>emitted := emitted st @ D @ L @ P @ H @ W @ [Update (ConnectionStability v)]\<rparr>
      = st\<lparr>connection_history := c,
          emitted := emitted st @ D @ L @ P @ H @ W @ [Update (ConnectionStability v)]\<rparr>"
    by (simp add: l)
  have i: "\<forall>x t. ping_gives B (latency_ping env) x \<and> loss_ping env = Inl (TimeoutExpired, t) \<longrightarrow>
      L = [Update (LatencyMs x)] \<and> P = [Update PacketLossTimedOut]"
    unfolding L_def P_def
    by (auto simp: check_latency_reports_success check_packet_loss_reports_timeout)
  have r: "map reports D = [Some Dns]" "map reports L = [Some Latency]"
    "map reports P = [Some Loss]" "map reports H = [Some Http]"
    "remdups_adj (map reports W) = [Some Bandwidth]"
    unfolding D_def L_def P_def H_def W_def
    by (simp_all add: check_dns_resolution_reports [OF dns] check_latency_reports
        check_packet_loss_reports check_http_response_reports [OF http]
        check_internet_speed_reports)
  show ?thesis
    unfolding D_def [symmetric] L_def [symmetric] P_def [symmetric] H_def [symmetric]
      W_def [symmetric] v_def [symmetric]
    unfolding f t
    using r i by auto
qed

text \<open>
  The theorem at the step in which the latency probe reads 20 ms and the packet-loss
  ping times out, and at the step in which every probe fails.
\<close>

theorem troubleshoot_runs_all_probes_witness:
  "dns_outcome (dns_call partial_failure_env) \<and>
   http_outcome (http_call partial_failure_env) \<and>
   ping_gives digit_builtins (latency_ping partial_failure_env) 20 \<and>
   loss_ping partial_failure_env
     = Inl (TimeoutExpired, ''Command ping timed out after 15 seconds'') \<and>
   fst (troubleshoot digit_builtins fresh_monitor partial_failure_env) = None \<and>
   items (connection_history (snd (troubleshoot digit_builtins fresh_monitor partial_failure_env)))
     = [20] \<and>
   emitted (snd (troubleshoot digit_builtins fresh_monitor partial_failure_env))
     = [Update DnsOk, Update (LatencyMs 20), Update PacketLossTimedOut,
        Update (HttpResponse 200), Update (DownloadSpeed 94), Update (UploadSpeed 11),
        Update (ConnectionStability ''Not enough data for stability analysis'')] \<and>
   dns_outcome (dns_call all_failing_env) \<and>
   http_outcome (http_call all_failing_env) \<and>
   fst (troubleshoot digit_builtins fresh_monitor all_failing_env) = None \<and>
   emitted (snd (troubleshoot digit_builtins fresh_monitor all_failing_env))
     = [Update DnsFailed, Update PingFailed,
        Update (PacketLossError ''[Errno 2] No such file or directory: ping''),
        Update (HttpError ''Connection refused''),
        Update (SpeedError ''Unable to connect to servers''),
        Update (ConnectionStability ''Not enough data for stability analysis'')]"
proof -
  have dns: "dns_outcome (dns_call partial_failure_env)"
    by (simp add: partial_failure_env_def dns_outcome_def)
  have http: "http_outcome (http_call partial_failure_env)"
    by (simp add: partial_failure_env_def http_outcome_def)
  have dns': "dns_outcome (dns_call all_failing_env)"
    by (simp add: all_failing_env_def dns_outcome_def)
  have http': "http_outcome (http_call all_failing_env)"
    by (simp add: all_failing_env_def http_outcome_def)
  have g': "ping_gives digit_builtins (ping_ok ''rtt min/avg/max/mdev = 19/20/21/1 ms'') 20"
    by (simp add: ping_ok_def ping_gives_def index_neg3_def digit_builtins_def read_digits_def
        digit_value_def)
  then have g: "ping_gives digit_builtins (latency_ping partial_failure_env) 20"
    by (simp add: partial_failure_env_def)
  have lat: "check_latency digit_builtins fresh_monitor (latency_ping partial_failure_env)
      = emit (Update (LatencyMs 20))
          (fresh_monitor\<lparr>connection_history :=
             deque_append (connection_history fresh_monitor) 20\<rparr>)"
    using g by (rule check_latency_success)
  have lat': "check_latency digit_builtins fresh_monitor (latency_ping all_failing_env)
      = emit (Update PingFailed) fresh_monitor"
    by (simp add: check_latency_def check_latency_try_def all_failing_env_def)
  note m = fresh_monitor_def init_def deque_new_def
  note t = troubleshoot_runs_all_probes [OF dns http, of digit_builtins fresh_monitor]
  note t' = troubleshoot_runs_all_probes [OF dns' http', of digit_builtins fresh_monitor]
  from t have n: "fst (troubleshoot digit_builtins fresh_monitor partial_failure_env) = None"
    by (rule conjunct1)
  from t' have n': "fst (troubleshoot digit_builtins fresh_monitor all_failing_env) = None"
    by (rule conjunct1)
  have c: "items (connection_history
        (snd (troubleshoot digit_builtins fresh_monitor partial_failure_env))) = [20]"
    unfolding conjunct1 [OF conjunct2 [OF t]] lat
    by (simp add: deque_append_items emit_def m)
  have e: "emitted (snd (troubleshoot digit_builtins fresh_monitor partial_failure_env))
     = [Update DnsOk, Update (LatencyMs 20), Update PacketLossTimedOut,
        Update (HttpResponse 200), Update (DownloadSpeed 94), Update (UploadSpeed 11),
        Update (ConnectionStability ''Not enough data for stability analysis'')]"
    unfolding conjunct1 [OF conjunct2 [OF t]] lat
    by (simp add: signals_since_def check_dns_resolution_def check_packet_loss_def
        check_packet_loss_try_def check_http_response_def check_internet_speed_def
        analyze_connection_stability_def Let_def partial_failure_env_def deque_append_items
        emit_def m)
  have e': "emitted (snd (troubleshoot digit_builtins fresh_monitor all_failing_env))
     = [Update DnsFailed, Update PingFailed,
        Update (PacketLossError ''[Errno 2] No such file or directory: ping''),
        Update (HttpError ''Connection refused''),
        Update (SpeedError ''Unable to connect to servers''),
        Update (ConnectionStability ''Not enough data for stability analysis'')]"
    unfolding conjunct1 [OF conjunct2 [OF t']] lat'
    by (simp add: signals_since_def check_dns_resolution_def check_packet_loss_def
        check_packet_loss_try_def check_http_response_def check_internet_speed_def
        analyze_connection_stability_def Let_def all_failing_env_def emit_def m)
  show ?thesis
    using dns http dns' http' g n n' c e e' by (simp add: partial_failure_env_def)
qed

text \<open>
  C6, as the claim states it, fails where the lookup or the request raises an exception
  of another class: \<^verbatim>\<open>check_dns_resolution\<close> catches \<^verbatim>\<open>socket.gaierror\<close> only and
  \<^verbatim>\<open>check_http_response\<close> \<^verbatim>\<open>requests.RequestException\<close> only. When the lookup raises so,
  the step ends with that exception, no probe has reported and no verdict is computed;
  when the request raises so, the bandwidth probe does not run and no verdict is computed.
\<close>

theorem troubleshoot_stray_exception_counterexample:
  "troubleshoot digit_builtins fresh_monitor dns_stray_env = (Some stray_exception, fresh_monitor) \<and>
   emitted fresh_monitor = [] \<and>
   fst (troubleshoot digit_builtins fresh_monitor http_stray_env) = Some stray_exception \<and>
   emitted (snd (troubleshoot digit_builtins fresh_monitor http_stray_env))
     = [Update DnsOk, Update (LatencyMs 20), Update PacketLossTimedOut]"
proof -
  have g: "ping_gives digit_builtins (ping_ok ''rtt min/avg/max/mdev = 19/20/21/1 ms'') 20"
    by (simp add: ping_ok_def ping_gives_def index_neg3_def digit_builtins_def read_digits_def
        digit_value_def)
  have a: "troubleshoot digit_builtins fresh_monitor dns_stray_env
      = (Some stray_exception, fresh_monitor)"
    by (simp add: troubleshoot_def check_dns_resolution_def dns_stray_env_def
        stray_exception_def)
  have b: "emitted fresh_monitor = []"
    by (simp add: fresh_monitor_def init_def)
  have c: "troubleshoot digit_builtins fresh_monitor http_stray_env
      = (Some stray_exception,
         emit (Update PacketLossTimedOut)
           (check_latency digit_builtins (emit (Update DnsOk) fresh_monitor)
              (ping_ok ''rtt min/avg/max/mdev = 19/20/21/1 ms'')))"
    by (simp add: troubleshoot_def check_dns_resolution_def check_packet_loss_def
        check_packet_loss_try_def check_http_response_def http_stray_env_def
        partial_failure_env_def stray_exception_def Let_def)
  show ?thesis
    unfolding a c check_latency_success [OF g]
    by (simp add: b)
qed

lemma troubleshoot_dns_unhandled:
  "\<not> dns_outcome (dns_call env) \<Longrightarrow> \<exists>e. troubleshoot B st env = (Some e, st)"
  by (auto simp: dns_outcome_def troubleshoot_def check_dns_resolution_def split: sum.splits)

section \<open>Properties of the sampler and of the loop\<close>

lemma get_network_speed_v1_0_read_failure:
  "r1 = Inl e \<or> (r1 = Inr c \<and> r2 = Inl e) \<Longrightarrow>
   get_network_speed_v1_0 st r1 r2 = ((0, 0), st\<lparr>log := log st @ [LogError (snd e)]\<rparr>)"
  by (auto simp: get_network_speed_v1_0_def)

lemma get_network_speed_read_failure:
  "r1 = Inl e \<or> (r1 = Inr c \<and> r2 = Inl e) \<Longrightarrow> get_network_speed st r1 r2 = (Inl e, st)"
  by (auto simp: get_network_speed_def)

lemma run_read_failure:
  "running st \<Longrightarrow> sent_read env = Inl e \<or> (sent_read env = Inr c \<and> recv_read env = Inl e) \<Longrightarrow>
   run B st (env # envs) = (Raised e, st)"
  by (auto simp: run_body_def get_network_speed_def)

text \<open>
  C7. In network_monitor_v1.5.py a failing counter read is not turned into a zero
  sample: the exception leaves \<open>get_network_speed\<close> and then \<open>run\<close>, at the first
  iteration, with nothing emitted and no later iteration begun. The sampler of
  network_monitor_v1.0.py returns the zero sample on the same read.
\<close>

theorem run_counter_read_failure:
  "get_network_speed fresh_monitor (Inl read_failure) r2 = (Inl read_failure, fresh_monitor) \<and>
   run B fresh_monitor (failing_tick r2 p # envs) = (Raised read_failure, fresh_monitor) \<and>
   emitted (snd (run B fresh_monitor (failing_tick r2 p # envs))) = [] \<and>
   fst (get_network_speed_v1_0 st0 (Inl read_failure) r2) = (0, 0)"
proof -
  have r: "running fresh_monitor" by (simp add: fresh_monitor_def init_def)
  have s: "sent_read (failing_tick r2 p) = Inl read_failure" by (simp add: failing_tick_def)
  have "run B fresh_monitor (failing_tick r2 p # envs) = (Raised read_failure, fresh_monitor)"
    using r s by (intro run_read_failure) simp_all
  moreover have "emitted fresh_monitor = []" by (simp add: fresh_monitor_def init_def)
  ultimately show ?thesis
    by (simp add: get_network_speed_read_failure get_network_speed_v1_0_read_failure)
qed

lemma run_stopped: "run B (stop st) envs = (Returned, stop st)"
  by (cases envs) (simp_all add: stop_def)

lemma running_emit [simp]: "running (emit s st) = running st"
  by (simp add: emit_def)

end
